theory Spec2Isabelle
  imports Complex_Main
begin

section \<open>Values of the JavaScript runtime\<close>

text \<open>
  The gateway (\<^verbatim>\<open>packages/proxy-server/src/proxy-server.ts\<close>) and the forwarder
  (\<^verbatim>\<open>packages/proxy-client/src/proxy-client.ts\<close>) exchange JSON values. A value
  is one of the six JSON kinds; an object is the list of its properties in order, each key
  once.
  \<^verbatim>\<open>undefined\<close> is the absence of a value: a property read gives an option.
\<close>

datatype jsval =
    JNull
  | JBool bool
  | JNumber rat
  | JString string
  | JArray "jsval list"
  | JObject "(string \<times> jsval) list"

text \<open>A thrown \<^verbatim>\<open>Error\<close> object: its name and its message.\<close>

datatype JsError = JsError string string

text \<open>\<^verbatim>\<open>v.k\<close> (and \<^verbatim>\<open>v?.k\<close> on a value that is not an object):
  the property, or \<^verbatim>\<open>undefined\<close>. Only named properties of envelopes are read, which
  arrays and primitives do not have.\<close>

fun getProp :: "jsval \<Rightarrow> string \<Rightarrow> jsval option" where
  "getProp (JObject kvs) k = map_of kvs k"
| "getProp _ k = None"

text \<open>JavaScript truthiness, as \<^verbatim>\<open>!v\<close>, \<^verbatim>\<open>v || d\<close> and
  \<^verbatim>\<open>v && w\<close> test it.\<close>

fun truthy :: "jsval \<Rightarrow> bool" where
  "truthy JNull = False"
| "truthy (JBool b) = b"
| "truthy (JNumber n) = (n \<noteq> 0)"
| "truthy (JString s) = (s \<noteq> [])"
| "truthy (JArray _) = True"
| "truthy (JObject _) = True"

text \<open>\<^verbatim>\<open>data && typeof data === 'object'\<close>: objects and arrays
  (\<^verbatim>\<open>null\<close> is falsy).\<close>

fun isObject :: "jsval \<Rightarrow> bool" where
  "isObject (JObject _) = True"
| "isObject (JArray _) = True"
| "isObject _ = False"

text \<open>\<^verbatim>\<open>typeof v === 'string'\<close> and \<^verbatim>\<open>typeof v === 'number'\<close>
  on a property read.\<close>

fun asString :: "jsval option \<Rightarrow> string option" where
  "asString (Some (JString s)) = Some s"
| "asString _ = None"

fun asNumber :: "jsval option \<Rightarrow> rat option" where
  "asNumber (Some (JNumber n)) = Some n"
| "asNumber _ = None"

text \<open>\<^verbatim>\<open>s || ''\<close> on a string that may be \<^verbatim>\<open>null\<close> or
  \<^verbatim>\<open>undefined\<close>.\<close>

fun orEmpty :: "string option \<Rightarrow> string" where
  "orEmpty None = []"
| "orEmpty (Some s) = s"

text \<open>
  The functions of the runtime that the code calls and the repository does not define are
  parameters of the model: \<^verbatim>\<open>JSON.parse\<close> (\<open>None\<close> when it throws a
  SyntaxError), \<^verbatim>\<open>JSON.stringify\<close>, \<^verbatim>\<open>String(v)\<close> on a value that
  is not a string, and the status the \<^verbatim>\<open>Response\<close> constructor keeps of the number
  it is given (\<open>None\<close> when it throws a RangeError).
\<close>

record runtime =
  JSON_parse :: "string \<Rightarrow> jsval option"
  JSON_stringify :: "jsval \<Rightarrow> string"
  String_of :: "jsval \<Rightarrow> string"
  Response_status :: "rat \<Rightarrow> rat option"

text \<open>\<^verbatim>\<open>String(v)\<close>.\<close>

fun String :: "runtime \<Rightarrow> jsval \<Rightarrow> string" where
  "String rt (JString s) = s"
| "String rt v = String_of rt v"

subsection \<open>Strings\<close>

text \<open>\<^verbatim>\<open>s.includes(sub)\<close>, \<^verbatim>\<open>s.startsWith(p)\<close>,
  \<^verbatim>\<open>s.endsWith(p)\<close>.\<close>

definition startsWith :: "string \<Rightarrow> string \<Rightarrow> bool" where
  "startsWith s p = (take (length p) s = p)"

definition endsWith :: "string \<Rightarrow> string \<Rightarrow> bool" where
  "endsWith s p = (length p \<le> length s \<and> drop (length s - length p) s = p)"

fun includesStr :: "string \<Rightarrow> string \<Rightarrow> bool" where
  "includesStr [] sub = (sub = [])"
| "includesStr (c # cs) sub = (startsWith (c # cs) sub \<or> includesStr cs sub)"

text \<open>\<^verbatim>\<open>s.split(sep)\<close> is read at its first two parts only: \<open>afterFirst\<close> is
  what follows the first occurrence of the separator (\<open>None\<close> when there is none, so that
  the split has one part), \<open>beforeFirst\<close> is the part before it.\<close>

fun afterFirst :: "string \<Rightarrow> string \<Rightarrow> string option" where
  "afterFirst sep [] = (if sep = [] then Some [] else None)"
| "afterFirst sep (c # cs) =
     (if startsWith (c # cs) sep then Some (drop (length sep) (c # cs)) else afterFirst sep cs)"

fun beforeFirst :: "string \<Rightarrow> string \<Rightarrow> string" where
  "beforeFirst sep [] = []"
| "beforeFirst sep (c # cs) =
     (if startsWith (c # cs) sep then [] else c # beforeFirst sep cs)"

text \<open>\<^verbatim>\<open>s.split(',')\<close>: all the parts, for a separator of one character.\<close>

fun splitChar :: "char \<Rightarrow> string \<Rightarrow> string list" where
  "splitChar sep [] = [[]]"
| "splitChar sep (c # cs) =
     (if c = sep then [] # splitChar sep cs
      else (case splitChar sep cs of [] \<Rightarrow> [[c]] | p # ps \<Rightarrow> (c # p) # ps))"

text \<open>\<^verbatim>\<open>s.trim()\<close>, \<^verbatim>\<open>s.toLowerCase()\<close> and
  \<^verbatim>\<open>s.toUpperCase()\<close>. A \<open>char\<close> is a code unit below 256: the white space
  among them is the six ASCII characters and the no-break space, and the letters that change
  case are taken to be the ASCII ones.\<close>

definition isSpace :: "char \<Rightarrow> bool" where
  "isSpace c = (c \<in> set [CHR '' '', CHR 0x09, CHR 0x0A, CHR 0x0B, CHR 0x0C, CHR 0x0D, CHR 0xA0])"

definition trim :: "string \<Rightarrow> string" where
  "trim s = rev (dropWhile isSpace (rev (dropWhile isSpace s)))"

definition lowerChar :: "char \<Rightarrow> char" where
  "lowerChar c = (let n = (of_char c :: nat) in if 65 \<le> n \<and> n \<le> 90 then char_of (n + 32) else c)"

definition upperChar :: "char \<Rightarrow> char" where
  "upperChar c = (let n = (of_char c :: nat) in if 97 \<le> n \<and> n \<le> 122 then char_of (n - 32) else c)"

definition toLowerCase :: "string \<Rightarrow> string" where
  "toLowerCase s = map lowerChar s"

definition toUpperCase :: "string \<Rightarrow> string" where
  "toUpperCase s = map upperChar s"

section \<open>Requests, responses and configuration of the gateway\<close>

text \<open>A \<^verbatim>\<open>Request\<close>: the method, the query parameters of the URL in order, the
  headers (names in lower case, as \<^verbatim>\<open>Headers\<close> keeps them) and the body as
  \<^verbatim>\<open>req.text()\<close> reads it.\<close>

record Request =
  reqMethod :: string
  searchParams :: "(string \<times> string) list"
  headers :: "(string \<times> string) list"
  bodyText :: string

definition headersGet :: "Request \<Rightarrow> string \<Rightarrow> string option" where
  "headersGet req name = map_of (headers req) name"

definition searchParamsGet :: "Request \<Rightarrow> string \<Rightarrow> string option" where
  "searchParamsGet req name = map_of (searchParams req) name"

text \<open>A \<^verbatim>\<open>Response\<close>: the status, the body (\<open>None\<close> for \<^verbatim>\<open>null\<close>) and
  the headers.\<close>

record Response =
  status :: rat
  responseBody :: "string option"
  responseHeaders :: "(string \<times> string) list"

text \<open>The constants computed at startup from \<^verbatim>\<open>process.env\<close>, and the instance
  identifier drawn at startup.\<close>

record config =
  AUTH_TOKEN :: string
  ALLOWED_CLIENT_IDS :: "string list"
  READY_STORE :: string
  REDIS_URL :: string
  INSTANCE_ID :: string

definition loadConfig :: "(string \<times> string) list \<Rightarrow> string \<Rightarrow> config" where
  "loadConfig env instanceId =
     \<lparr> AUTH_TOKEN = orEmpty (map_of env ''AUTH_TOKEN''),
       ALLOWED_CLIENT_IDS =
         filter (\<lambda>s. s \<noteq> []) (map trim (splitChar CHR '','' (orEmpty (map_of env ''ALLOWED_CLIENT_IDS'')))),
       READY_STORE =
         toLowerCase (case map_of env ''READY_STORE'' of None \<Rightarrow> ''memory''
                      | Some s \<Rightarrow> if s = [] then ''memory'' else s),
       REDIS_URL = orEmpty (map_of env ''REDIS_URL''),
       INSTANCE_ID = instanceId \<rparr>"

definition RESPONSE_HUB :: "config \<Rightarrow> string" where
  "RESPONSE_HUB cfg = ''response-'' @ INSTANCE_ID cfg"

definition SYSTEM_HUB :: string where
  "SYSTEM_HUB = ''system''"

text \<open>\<^verbatim>\<open>parseJSON\<close>: safely parse a potential JSON string.\<close>

fun parseJSON :: "runtime \<Rightarrow> jsval \<Rightarrow> jsval" where
  "parseJSON rt JNull = JNull"
| "parseJSON rt (JObject kvs) = JObject kvs"
| "parseJSON rt (JArray vs) = JArray vs"
| "parseJSON rt (JString s) = (case JSON_parse rt s of Some v \<Rightarrow> v | None \<Rightarrow> JString s)"
| "parseJSON rt v = v"

text \<open>\<^verbatim>\<open>json(body, status)\<close>: a JSON response with the given status, which the
  \<^verbatim>\<open>Response\<close> constructor accepts (the handlers pass the constants 200, 400, 401,
  403, 409, 502 and 504; the one status that is not a constant is checked where it is
  passed, in \<open>handleInvoke_settled\<close>).\<close>

definition json :: "runtime \<Rightarrow> jsval \<Rightarrow> rat \<Rightarrow> Response" where
  "json rt b st =
     \<lparr> status = st, responseBody = Some (JSON_stringify rt b),
       responseHeaders = [(''content-type'', ''application/json'')] \<rparr>"

text \<open>The object \<^verbatim>\<open>{ error: msg }\<close>.\<close>

definition errorObject :: "string \<Rightarrow> jsval" where
  "errorObject msg = JObject [(''error'', JString msg)]"

section \<open>Access issuer: \<^verbatim>\<open>POST /auth\<close>\<close>

definition verifyApiKey :: "config \<Rightarrow> Request \<Rightarrow> bool" where
  "verifyApiKey cfg req =
     (if AUTH_TOKEN cfg = [] then True
      else orEmpty (headersGet req ''x-api-key'') = AUTH_TOKEN cfg)"

definition isClientAllowed :: "config \<Rightarrow> string \<Rightarrow> bool" where
  "isClientAllowed cfg clientId =
     (if length (ALLOWED_CLIENT_IDS cfg) = 0 then True
      else clientId \<in> set (ALLOWED_CLIENT_IDS cfg))"

text \<open>The \<^verbatim>\<open>try\<close> block that reads the identity:
  \<^verbatim>\<open>String(body?.clientId || '')\<close> of the parsed body, and the empty string when
  \<^verbatim>\<open>req.json()\<close> throws.\<close>

definition readClientId :: "runtime \<Rightarrow> Request \<Rightarrow> string" where
  "readClientId rt req =
     (case JSON_parse rt (bodyText req) of
        None \<Rightarrow> []
      | Some b \<Rightarrow>
          (case getProp b ''clientId'' of
             None \<Rightarrow> []
           | Some v \<Rightarrow> if truthy v then String rt v else []))"

text \<open>\<^verbatim>\<open>handleAuth\<close>. The transport's \<^verbatim>\<open>getClientAccessToken\<close> is the
  parameter \<open>mint\<close>: applied to the user id, it throws or returns a token with its
  \<^verbatim>\<open>url\<close> (which may be missing).\<close>

definition handleAuth ::
  "runtime \<Rightarrow> config \<Rightarrow> (string \<Rightarrow> JsError + string option) \<Rightarrow> Request \<Rightarrow> Response" where
  "handleAuth rt cfg mint req =
     (if \<not> verifyApiKey cfg req then json rt (errorObject ''Unauthorized'') 401
      else
        let clientId = readClientId rt req in
        if clientId = [] then json rt (errorObject ''clientId is required'') 400
        else if \<not> isClientAllowed cfg clientId then json rt (errorObject ''Forbidden clientId'') 403
        else
          (case mint (''client:'' @ clientId) of
             Inl err \<Rightarrow> json rt (errorObject ''Failed to mint access token'') 502
           | Inr None \<Rightarrow> json rt (errorObject ''Failed to mint access token'') 502
           | Inr (Some url) \<Rightarrow>
               if url = [] then json rt (errorObject ''Failed to mint access token'') 502
               else
                 json rt
                   (JObject
                      [(''system'', JObject [(''hub'', JString SYSTEM_HUB), (''url'', JString url)]),
                       (''userId'', JString (''client:'' @ clientId))])
                   200))"

section \<open>Readiness registry\<close>

text \<open>The store \<^verbatim>\<open>createReadyStore\<close> returns: the map in process memory, or the
  external key-value store with the keys \<^verbatim>\<open>ready:<id>\<close>. The external store is
  reachable or not; its commands throw when it is not.\<close>

datatype ReadyStore =
    MemoryStore "string \<rightharpoonup> bool"
  | RedisStore bool "string \<rightharpoonup> string"

definition createReadyStore :: "config \<Rightarrow> bool \<Rightarrow> bool \<times> (string \<rightharpoonup> string) \<Rightarrow> ReadyStore" where
  "createReadyStore cfg ioredisInstalled redis =
     (if READY_STORE cfg = ''redis'' \<and> REDIS_URL cfg \<noteq> [] \<and> ioredisInstalled
      then RedisStore (fst redis) (snd redis)
      else MemoryStore Map.empty)"

definition readyKey :: "string \<Rightarrow> string" where
  "readyKey clientId = ''ready:'' @ clientId"

definition storeUnreachable :: JsError where
  "storeUnreachable = JsError ''Error'' ''Connection is closed.''"

fun setReady :: "ReadyStore \<Rightarrow> string \<Rightarrow> bool \<Rightarrow> JsError + ReadyStore" where
  "setReady (MemoryStore mem) clientId ready =
     Inr (MemoryStore (if ready then mem(clientId \<mapsto> True) else mem(clientId := None)))"
| "setReady (RedisStore up kv) clientId ready =
     (if \<not> up then Inl storeUnreachable
      else Inr (RedisStore up
             (if ready then kv(readyKey clientId \<mapsto> ''1'') else kv(readyKey clientId := None))))"

fun isReady :: "ReadyStore \<Rightarrow> string \<Rightarrow> JsError + bool" where
  "isReady (MemoryStore mem) clientId =
     Inr (case mem clientId of None \<Rightarrow> False | Some b \<Rightarrow> b)"
| "isReady (RedisStore up kv) clientId =
     (if \<not> up then Inl storeUnreachable
      else Inr (case kv (readyKey clientId) of None \<Rightarrow> False | Some v \<Rightarrow> v \<noteq> []))"

section \<open>Pending correlation table\<close>

text \<open>
  A \<^verbatim>\<open>Pending\<close> entry holds the \<^verbatim>\<open>resolve\<close> and \<^verbatim>\<open>reject\<close>
  callbacks of one promise (named by the promise) and the handle of its timer. An armed
  timer holds what its callback closes over (the request id and the promise it rejects)
  and its delay. Every call of a \<^verbatim>\<open>resolve\<close> or \<^verbatim>\<open>reject\<close> callback is
  written to \<open>settled\<close>, every call of the transport's publish to \<open>published\<close>.
\<close>

record Pending =
  promise :: nat
  timer :: nat

record Timeout =
  timeoutRequestId :: string
  timeoutPromise :: nat
  timeoutMs :: int

datatype settlement = Resolved rat jsval | Rejected JsError

record gateway =
  pending :: "string \<rightharpoonup> Pending"
  timers :: "nat \<rightharpoonup> Timeout"
  store :: ReadyStore
  settled :: "(nat \<times> settlement) list"
  published :: "(string \<times> string) list"
  nextHandle :: nat

definition initial :: "ReadyStore \<Rightarrow> gateway" where
  "initial st =
     \<lparr> pending = Map.empty, timers = Map.empty, store = st, settled = [], published = [],
       nextHandle = 0 \<rparr>"

text \<open>The delay \<^verbatim>\<open>setTimeout(f, ms)\<close> arms the timer with: the runtime replaces a
  delay that is not between 1 and \<open>2\<^sup>3\<^sup>1 - 1\<close> milliseconds by 1.\<close>

definition setTimeoutDelay :: "int \<Rightarrow> int" where
  "setTimeoutDelay ms = (if 1 \<le> ms \<and> ms \<le> 2147483647 then ms else 1)"

text \<open>\<^verbatim>\<open>awaitResponse(requestId, timeoutMs = 30_000)\<close>: a new promise, its timer
  armed and its entry set, all in one synchronous step. The result is the promise.\<close>

definition awaitResponse :: "string \<Rightarrow> int option \<Rightarrow> gateway \<Rightarrow> nat \<times> gateway" where
  "awaitResponse requestId timeoutArg s =
     (let ms = (case timeoutArg of None \<Rightarrow> 30000 | Some t \<Rightarrow> t);
          h = nextHandle s
      in (h, s\<lparr> timers := (timers s)(h \<mapsto>
                   \<lparr> timeoutRequestId = requestId, timeoutPromise = h,
                     timeoutMs = setTimeoutDelay ms \<rparr>),
                pending := (pending s)(requestId \<mapsto> \<lparr> promise = h, timer = h \<rparr>),
                nextHandle := Suc h \<rparr>))"

text \<open>\<^verbatim>\<open>clearTimeout(h)\<close>.\<close>

definition clearTimeout :: "nat \<Rightarrow> gateway \<Rightarrow> gateway" where
  "clearTimeout h s = s\<lparr> timers := (timers s)(h := None) \<rparr>"


section \<open>Request gateway: \<^verbatim>\<open>POST /invoke\<close>\<close>

text \<open>\<^verbatim>\<open>url.searchParams.get(k) || undefined\<close>.\<close>

fun orUndefined :: "string option \<Rightarrow> string option" where
  "orUndefined None = None"
| "orUndefined (Some s) = (if s = [] then None else Some s)"

definition readInvokeParams :: "Request \<Rightarrow> string option \<times> string option" where
  "readInvokeParams req =
     (orUndefined (searchParamsGet req ''clientId''), orUndefined (searchParamsGet req ''path''))"

text \<open>The body of the envelope, from the request's content type and text.\<close>

definition invokeBody :: "runtime \<Rightarrow> Request \<Rightarrow> jsval" where
  "invokeBody rt req =
     (if includesStr (orEmpty (headersGet req ''content-type'')) ''application/json''
      then (case JSON_parse rt (bodyText req) of None \<Rightarrow> JNull | Some v \<Rightarrow> v)
      else if bodyText req \<noteq> [] then parseJSON rt (JString (bodyText req)) else JNull)"

text \<open>The request envelope \<^verbatim>\<open>{ type: 'request', requestId, method, path, body }\<close>.\<close>

definition requestMessage :: "string \<Rightarrow> string \<Rightarrow> string \<Rightarrow> jsval \<Rightarrow> jsval" where
  "requestMessage requestId method path b =
     JObject [(''type'', JString ''request''), (''requestId'', JString requestId),
              (''method'', JString method), (''path'', JString path), (''body'', b)]"

text \<open>\<^verbatim>\<open>publish(clientId, data)\<close> calls the transport's
  \<^verbatim>\<open>sendToUser\<close> with the serialised data.\<close>

definition publish :: "runtime \<Rightarrow> string \<Rightarrow> jsval \<Rightarrow> gateway \<Rightarrow> gateway" where
  "publish rt clientId data s = s\<lparr> published := published s @ [(clientId, JSON_stringify rt data)] \<rparr>"

text \<open>
  \<^verbatim>\<open>handleInvoke\<close> runs in three parts, cut at its two long waits. The first part
  runs up to \<^verbatim>\<open>await publish(...)\<close>: it answers at once, or throws (the store's
  \<^verbatim>\<open>isReady\<close> failed), or has registered the entry and called the transport. The
  argument \<open>uuid\<close> is what \<^verbatim>\<open>uuidv4()\<close> returns.
\<close>

datatype invoke = Responded Response | AwaitingPublish string nat

definition handleInvoke ::
  "runtime \<Rightarrow> string \<Rightarrow> Request \<Rightarrow> gateway \<Rightarrow> (JsError + invoke) \<times> gateway" where
  "handleInvoke rt uuid req s =
     (case readInvokeParams req of
        (Some clientId, Some path) \<Rightarrow>
          (case isReady (store s) clientId of
             Inl err \<Rightarrow> (Inl err, s)
           | Inr ready \<Rightarrow>
               if \<not> ready then (Inr (Responded (json rt (errorObject ''Client not ready'') 409)), s)
               else
                 let b = invokeBody rt req;
                     requestId = uuid;
                     message = requestMessage requestId (reqMethod req) path b;
                     (responsePromise, s1) = awaitResponse requestId None s
                 in (Inr (AwaitingPublish requestId responsePromise), publish rt clientId message s1))
      | _ \<Rightarrow>
          (Inr (Responded (json rt (errorObject ''Missing required query params: clientId and path'') 400)), s))"

text \<open>The second part, when the publish threw: the \<^verbatim>\<open>catch\<close> block.\<close>

definition handleInvoke_publishFailed :: "runtime \<Rightarrow> string \<Rightarrow> gateway \<Rightarrow> Response \<times> gateway" where
  "handleInvoke_publishFailed rt requestId s =
     (let s' = (case pending s requestId of
                  None \<Rightarrow> s
                | Some p \<Rightarrow> (clearTimeout (timer p) s)\<lparr> pending := (pending s)(requestId := None) \<rparr>)
      in (json rt (errorObject ''Failed to publish to PubSub'') 502, s'))"

text \<open>The third part, when the awaited promise is settled: the response's status and body,
  or 504 when it was rejected. The response is built inside the \<^verbatim>\<open>try\<close> block, so
  a status the \<^verbatim>\<open>Response\<close> constructor refuses gives 504 as well.\<close>

definition handleInvoke_settled :: "runtime \<Rightarrow> settlement \<Rightarrow> Response" where
  "handleInvoke_settled rt outcome =
     (case outcome of
        Resolved st b \<Rightarrow>
          (case Response_status rt st of
             Some accepted \<Rightarrow> json rt b accepted
           | None \<Rightarrow> json rt (errorObject ''Gateway Timeout'') 504)
      | Rejected err \<Rightarrow> json rt (errorObject ''Gateway Timeout'') 504)"

section \<open>Event router: \<^verbatim>\<open>POST /events\<close>\<close>

definition hubFromSource :: "string \<Rightarrow> string" where
  "hubFromSource ceSource =
     (case afterFirst ''/hubs/'' ceSource of
        None \<Rightarrow> []
      | Some rest \<Rightarrow> beforeFirst ''/'' (beforeFirst ''/hubs/'' rest))"

definition eventHub :: "Request \<Rightarrow> string" where
  "eventHub req =
     (let ceHub = orEmpty (headersGet req ''ce-hub'');
          ceSource = orEmpty (headersGet req ''ce-source'')
      in if ceHub \<noteq> [] then ceHub else hubFromSource ceSource)"

definition eventPayload :: "runtime \<Rightarrow> Request \<Rightarrow> jsval" where
  "eventPayload rt req = parseJSON rt (JString (bodyText req))"

definition userMessage :: string where
  "userMessage = ''azure.webpubsub.user.message''"

text \<open>\<^verbatim>\<open>new Response(null, { status: 200 })\<close>.\<close>

definition acknowledgement :: Response where
  "acknowledgement = \<lparr> status = 200, responseBody = None, responseHeaders = [] \<rparr>"

text \<open>The \<^verbatim>\<open>try\<close> block of the response hub, on the payload \<open>data\<close>.\<close>

definition handleEvents_response :: "jsval \<Rightarrow> gateway \<Rightarrow> gateway" where
  "handleEvents_response data s =
     (if isObject data \<and> getProp data ''type'' = Some (JString ''response'') then
        (case asString (getProp data ''requestId'') of
           Some requestId \<Rightarrow>
             (let entry = pending s requestId;
                  st = (case asNumber (getProp data ''status'') of Some n \<Rightarrow> n | None \<Rightarrow> 200)
              in case entry of
                   Some e \<Rightarrow>
                     (clearTimeout (timer e) s)
                       \<lparr> pending := (pending s)(requestId := None),
                         settled := settled s @
                           [(promise e,
                             Resolved st (case getProp data ''body'' of
                                            Some b \<Rightarrow> b | None \<Rightarrow> JNull))] \<rparr>
                 | None \<Rightarrow> s)
         | None \<Rightarrow> s)
      else s)"

text \<open>The \<^verbatim>\<open>try\<close> block of the system hub: what the store throws is caught.\<close>

definition handleEvents_system :: "jsval \<Rightarrow> gateway \<Rightarrow> gateway" where
  "handleEvents_system data s =
     (if isObject data \<and> getProp data ''type'' = Some (JString ''init'') then
        (case asString (getProp data ''clientId'') of
           Some clientId \<Rightarrow>
             (case setReady (store s) clientId True of
                Inl err \<Rightarrow> s
              | Inr st' \<Rightarrow> s\<lparr> store := st' \<rparr>)
         | None \<Rightarrow> s)
      else s)"

definition handleEvents :: "runtime \<Rightarrow> config \<Rightarrow> Request \<Rightarrow> gateway \<Rightarrow> Response \<times> gateway" where
  "handleEvents rt cfg req s =
     (let ceType = orEmpty (headersGet req ''ce-type'');
          hub = eventHub req;
          data = eventPayload rt req;
          s' =
            (if ceType = userMessage \<and> hub = RESPONSE_HUB cfg then handleEvents_response data s
             else if ceType = userMessage \<and> hub = SYSTEM_HUB then handleEvents_system data s
             else s)
      in (acknowledgement, s'))"

section \<open>Runs of the gateway\<close>





section \<open>Remote forwarder\<close>

text \<open>
  The worker's side (\<^verbatim>\<open>forwardToLocal\<close> and \<^verbatim>\<open>onMessage\<close>). The local HTTP
  call is the parameter \<open>fetch\<close>: applied to the call it is given, it throws or returns a
  response, whose \<^verbatim>\<open>json()\<close> and \<^verbatim>\<open>text()\<close> throw or return in turn.
\<close>

record FetchInit =
  fetchUrl :: string
  fetchMethod :: string
  fetchHeaders :: "(string \<times> string) list"
  fetchBody :: "string option"

record FetchResponse =
  fetchStatus :: rat
  fetchContentType :: "string option"
  fetchJson :: "JsError + jsval"
  fetchText :: "JsError + string"

definition joinUrl :: "string \<Rightarrow> string \<Rightarrow> string" where
  "joinUrl base path =
     (if \<not> endsWith base ''/'' \<and> \<not> startsWith path ''/'' then base @ ''/'' @ path
      else if endsWith base ''/'' \<and> startsWith path ''/'' then base @ drop 1 path
      else base @ path)"

text \<open>A method call on a value that has no such method.\<close>

definition typeError :: JsError where
  "typeError = JsError ''TypeError'' ''not a function''"

text \<open>\<^verbatim>\<open>(reqMsg.method || "GET").toUpperCase()\<close>: a truthy value that is not a string
  has no \<^verbatim>\<open>toUpperCase\<close>.\<close>

definition forwardMethod :: "jsval \<Rightarrow> JsError + string" where
  "forwardMethod reqMsg =
     (case getProp reqMsg ''method'' of
        None \<Rightarrow> Inr (toUpperCase ''GET'')
      | Some v \<Rightarrow>
          if \<not> truthy v then Inr (toUpperCase ''GET'')
          else (case v of JString m \<Rightarrow> Inr (toUpperCase m) | _ \<Rightarrow> Inl typeError))"

text \<open>The call made to the local API: \<^verbatim>\<open>f(url, { method, headers, body })\<close>.\<close>

definition localCall :: "runtime \<Rightarrow> string \<Rightarrow> string \<Rightarrow> string \<Rightarrow> jsval \<Rightarrow> FetchInit" where
  "localCall rt url method path reqMsg =
     (let hasBody =
            (case getProp reqMsg ''body'' of
               None \<Rightarrow> False
             | Some b \<Rightarrow> b \<noteq> JNull \<and> method \<noteq> ''GET'' \<and> method \<noteq> ''HEAD'')
      in \<lparr> fetchUrl = url, fetchMethod = method,
           fetchHeaders = (if hasBody then [(''content-type'', ''application/json'')] else []),
           fetchBody = (if hasBody then map_option (JSON_stringify rt) (getProp reqMsg ''body'') else None) \<rparr>)"

text \<open>The response envelope \<^verbatim>\<open>{ type: "response", requestId, status, body }\<close>; a
  request id that is \<^verbatim>\<open>undefined\<close> leaves no property.\<close>

definition responseEnvelope :: "jsval option \<Rightarrow> rat \<Rightarrow> jsval \<Rightarrow> jsval" where
  "responseEnvelope requestId st b =
     JObject ([(''type'', JString ''response'')]
              @ (case requestId of None \<Rightarrow> [] | Some r \<Rightarrow> [(''requestId'', r)])
              @ [(''status'', JNumber st), (''body'', b)])"

text \<open>\<^verbatim>\<open>String(err?.message || err || "Unknown error")\<close> of a thrown error.\<close>

fun errorText :: "JsError \<Rightarrow> string" where
  "errorText (JsError name msg) = (if msg \<noteq> [] then msg else name)"

text \<open>The body read from the local API's response.\<close>

definition readBody :: "FetchResponse \<Rightarrow> JsError + jsval" where
  "readBody resp =
     (let ct = orEmpty (fetchContentType resp);
          asText = (case fetchText resp of Inl err \<Rightarrow> Inl err | Inr t \<Rightarrow> Inr (JString t))
      in if includesStr ct ''application/json''
         then (case fetchJson resp of Inr v \<Rightarrow> Inr v | Inl err \<Rightarrow> asText)
         else asText)"

text \<open>\<^verbatim>\<open>forwardToLocal\<close>. The URL and the method are computed before the
  \<^verbatim>\<open>try\<close> block: what they throw, the function throws.\<close>

definition forwardToLocal ::
  "runtime \<Rightarrow> string \<Rightarrow> (FetchInit \<Rightarrow> JsError + FetchResponse) \<Rightarrow> jsval \<Rightarrow> JsError + jsval" where
  "forwardToLocal rt LOCAL_API_URL fetch reqMsg =
     (case asString (getProp reqMsg ''path'') of
        None \<Rightarrow> Inl typeError
      | Some path \<Rightarrow>
          (case forwardMethod reqMsg of
             Inl err \<Rightarrow> Inl err
           | Inr method \<Rightarrow>
               (let url = joinUrl LOCAL_API_URL path;
                    failed = (\<lambda>err. responseEnvelope (getProp reqMsg ''requestId'') 500
                                      (errorObject (errorText err)))
                in case fetch (localCall rt url method path reqMsg) of
                     Inl err \<Rightarrow> Inr (failed err)
                   | Inr resp \<Rightarrow>
                       (case readBody resp of
                          Inl err \<Rightarrow> Inr (failed err)
                        | Inr respBody \<Rightarrow>
                            Inr (responseEnvelope (getProp reqMsg ''requestId'')
                                   (fetchStatus resp) respBody)))))"

text \<open>The payload of a \<^verbatim>\<open>message\<close> frame: its \<^verbatim>\<open>data\<close>, parsed when the
  frame's data type is text and the parse succeeds.\<close>

definition messagePayload :: "runtime \<Rightarrow> jsval \<Rightarrow> jsval option" where
  "messagePayload rt msg =
     (case getProp msg ''data'' of
        Some (JString text) \<Rightarrow>
          if getProp msg ''dataType'' = Some (JString ''text'')
          then (case JSON_parse rt text of Some v \<Rightarrow> Some v | None \<Rightarrow> Some (JString text))
          else Some (JString text)
      | other \<Rightarrow> other)"

text \<open>The frame sent back: \<^verbatim>\<open>{ type: "sendToGroup", group: "server", dataType: "json",
  data: response }\<close>.\<close>

definition outbound :: "jsval \<Rightarrow> jsval" where
  "outbound response =
     JObject [(''type'', JString ''sendToGroup''), (''group'', JString ''server''),
              (''dataType'', JString ''json''), (''data'', response)]"

text \<open>\<^verbatim>\<open>onMessage(ws)\<close> on a frame whose data is the text \<open>raw\<close>; the socket is the
  list of the texts sent on it. Whatever is thrown inside is caught and logged.\<close>

definition onMessage ::
  "runtime \<Rightarrow> string \<Rightarrow> (FetchInit \<Rightarrow> JsError + FetchResponse) \<Rightarrow> string \<Rightarrow> string list \<Rightarrow> string list" where
  "onMessage rt LOCAL_API_URL fetch raw ws =
     (case JSON_parse rt raw of
        None \<Rightarrow> ws
      | Some msg \<Rightarrow>
          if getProp msg ''type'' = Some (JString ''system'')
             \<and> getProp msg ''event'' = Some (JString ''connected'') then ws
          else if getProp msg ''type'' = Some (JString ''ack'') then ws
          else if getProp msg ''type'' = Some (JString ''message'') then
            (case messagePayload rt msg of
               None \<Rightarrow> ws
             | Some payload \<Rightarrow>
                 if isObject payload \<and> getProp payload ''type'' = Some (JString ''request'') then
                   (case forwardToLocal rt LOCAL_API_URL fetch payload of
                      Inl err \<Rightarrow> ws
                    | Inr response \<Rightarrow> ws @ [JSON_stringify rt (outbound response)])
                 else ws)
          else ws)"


section \<open>Predicates of the properties\<close>

text \<open>The request is a data message of the response hub whose payload \<open>data\<close> is a
  response envelope with the correlation id \<open>requestId\<close>.\<close>

definition responseEvent :: "runtime \<Rightarrow> config \<Rightarrow> Request \<Rightarrow> jsval \<Rightarrow> string \<Rightarrow> bool" where
  "responseEvent rt cfg req data requestId =
     (orEmpty (headersGet req ''ce-type'') = userMessage \<and> eventHub req = RESPONSE_HUB cfg
      \<and> eventPayload rt req = data \<and> isObject data
      \<and> getProp data ''type'' = Some (JString ''response'')
      \<and> getProp data ''requestId'' = Some (JString requestId))"

section \<open>Concrete inputs\<close>

text \<open>A runtime whose \<^verbatim>\<open>JSON.parse\<close> and \<^verbatim>\<open>JSON.stringify\<close> know the texts of
  a table (the texts stand for the JSON texts of the values), and concrete requests.\<close>

definition demoTable :: "(string \<times> jsval) list" where
  "demoTable =
     [(''{clientId:w2}'', JObject [(''clientId'', JString ''w2'')]),
      (''{type:response,requestId:r1,status:201,body:ok}'',
         JObject [(''type'', JString ''response''), (''requestId'', JString ''r1''),
                  (''status'', JNumber 201), (''body'', JString ''ok'')]),
      (''{type:response,requestId:r1,status:late}'',
         JObject [(''type'', JString ''response''), (''requestId'', JString ''r1''),
                  (''status'', JString ''late'')]),
      (''{type:request,requestId:r1,method:POST,path:/hello,body:null}'',
         requestMessage ''r1'' ''POST'' ''/hello'' JNull),
      (''{type:message,dataType:json,data:{type:request,requestId:r1,method:POST,path:/hello,body:null}}'',
         JObject [(''type'', JString ''message''), (''dataType'', JString ''json''),
                  (''data'', requestMessage ''r1'' ''POST'' ''/hello'' JNull)])]"

definition demoRuntime :: runtime where
  "demoRuntime =
     \<lparr> JSON_parse = map_of demoTable,
       JSON_stringify =
         (\<lambda>v. case find (\<lambda>e. snd e = v) demoTable of Some e \<Rightarrow> fst e | None \<Rightarrow> ''null''),
       String_of = (\<lambda>v. ''[object Object]''),
       Response_status = (\<lambda>st. if 200 \<le> st \<and> st \<le> 599 then Some st else None) \<rparr>"

definition demoConfig :: config where
  "demoConfig = loadConfig [(''AUTH_TOKEN'', ''secret''), (''ALLOWED_CLIENT_IDS'', ''w1, w3'')] ''i1''"

definition authRequest :: "string \<Rightarrow> string \<Rightarrow> Request" where
  "authRequest key text =
     \<lparr> reqMethod = ''POST'', searchParams = [], headers = [(''x-api-key'', key)], bodyText = text \<rparr>"

definition invokeRequest :: "string \<Rightarrow> string \<Rightarrow> Request" where
  "invokeRequest clientId path =
     \<lparr> reqMethod = ''POST'', searchParams = [(''clientId'', clientId), (''path'', path)],
       headers = [], bodyText = [] \<rparr>"

definition eventRequest :: "string \<Rightarrow> string \<Rightarrow> Request" where
  "eventRequest source text =
     \<lparr> reqMethod = ''POST'', searchParams = [],
       headers = [(''ce-type'', ''azure.webpubsub.user.message''), (''ce-source'', source)],
       bodyText = text \<rparr>"

definition demoStore :: ReadyStore where
  "demoStore = MemoryStore [''w1'' \<mapsto> True]"

text \<open>The gateway after one invocation of the ready worker \<open>w1\<close> was registered under the
  request id \<open>r1\<close> and published.\<close>

definition registered :: gateway where
  "registered = snd (handleInvoke demoRuntime ''r1'' (invokeRequest ''w1'' ''/hello'') (initial demoStore))"

section \<open>Invariants of the pending table\<close>







definition demoFetchDown :: "FetchInit \<Rightarrow> JsError + FetchResponse" where
  "demoFetchDown init = Inl (JsError ''TypeError'' ''fetch failed'')"

section \<open>Properties\<close>

lemma demoConfig_simps:
  "AUTH_TOKEN demoConfig = ''secret''" "ALLOWED_CLIENT_IDS demoConfig = [''w1'', ''w3'']"
  "RESPONSE_HUB demoConfig = ''response-i1''"
  by (simp_all add: demoConfig_def loadConfig_def trim_def isSpace_def RESPONSE_HUB_def)

lemma handleInvoke_registered:
  "handleInvoke demoRuntime ''r1'' (invokeRequest ''w1'' ''/hello'') (initial demoStore)
     = (Inr (AwaitingPublish ''r1'' 0), registered)"
  by (simp add: registered_def handleInvoke_def readInvokeParams_def invokeRequest_def
        searchParamsGet_def initial_def demoStore_def awaitResponse_def setTimeoutDelay_def Let_def)

lemma registered_fields:
  "pending registered = [''r1'' \<mapsto> \<lparr> promise = 0, timer = 0 \<rparr>]"
  "timers registered = [0 \<mapsto> \<lparr> timeoutRequestId = ''r1'', timeoutPromise = 0, timeoutMs = 30000 \<rparr>]"
  "settled registered = []"
  "store registered = demoStore"
  "nextHandle registered = 1"
  "published registered = [(''w1'', ''{type:request,requestId:r1,method:POST,path:/hello,body:null}'')]"
  by (simp_all add: registered_def handleInvoke_def readInvokeParams_def invokeRequest_def
        searchParamsGet_def initial_def demoStore_def awaitResponse_def setTimeoutDelay_def Let_def publish_def
        invokeBody_def headersGet_def demoRuntime_def demoTable_def requestMessage_def)

lemma eventHub_demo:
  "eventHub (eventRequest ''/api/hubs/response-i1/users/w1'' text) = ''response-i1''"
  by (simp add: eventHub_def eventRequest_def headersGet_def hubFromSource_def startsWith_def)

lemma responseEvent_late:
  "responseEvent demoRuntime demoConfig
     (eventRequest ''/api/hubs/response-i1/users/w1'' ''{type:response,requestId:r1,status:late}'')
     (JObject [(''type'', JString ''response''), (''requestId'', JString ''r1''),
               (''status'', JString ''late'')]) ''r1''"
  by (simp add: responseEvent_def eventHub_demo demoConfig_simps eventPayload_def)
     (simp add: eventRequest_def headersGet_def userMessage_def demoRuntime_def demoTable_def)

lemma responseEvent_ok:
  "responseEvent demoRuntime demoConfig
     (eventRequest ''/api/hubs/response-i1/users/w1'' ''{type:response,requestId:r1,status:201,body:ok}'')
     (JObject [(''type'', JString ''response''), (''requestId'', JString ''r1''),
               (''status'', JNumber 201), (''body'', JString ''ok'')]) ''r1''"
  by (simp add: responseEvent_def eventHub_demo demoConfig_simps eventPayload_def)
     (simp add: eventRequest_def headersGet_def userMessage_def demoRuntime_def demoTable_def)

lemma demo_frame:
  "JSON_parse demoRuntime ''{type:message,dataType:json,data:{type:request,requestId:r1,method:POST,path:/hello,body:null}}''
     = Some (JObject [(''type'', JString ''message''), (''dataType'', JString ''json''),
                  (''data'', requestMessage ''r1'' ''POST'' ''/hello'' JNull)])"
  by (simp add: demoRuntime_def demoTable_def)

subsection \<open>The invariant of the pending table\<close>








































subsection \<open>Settlement of the entries\<close>




subsection \<open>Readiness gate\<close>

text \<open>
  C2. When the request names a worker and a path and the readiness registry reports the
  worker not ready, \<^verbatim>\<open>handleInvoke\<close> answers 409 at once and leaves the gateway as it
  was: no entry is registered and the transport's publish is not called.
\<close>

theorem not_ready_never_publishes:
  assumes "readInvokeParams req = (Some clientId, Some path)"
    and "isReady (store s) clientId = Inr False"
  shows "handleInvoke rt uuid req s = (Inr (Responded (json rt (errorObject ''Client not ready'') 409)), s)
         \<and> status (json rt (errorObject ''Client not ready'') 409) = 409
         \<and> published (snd (handleInvoke rt uuid req s)) = published s"
  using assms by (simp add: handleInvoke_def json_def)

theorem not_ready_never_publishes_witness:
  "handleInvoke demoRuntime ''r1'' (invokeRequest ''w2'' ''/hello'') (initial demoStore)
     = (Inr (Responded (json demoRuntime (errorObject ''Client not ready'') 409)), initial demoStore)
   \<and> published (snd (handleInvoke demoRuntime ''r1'' (invokeRequest ''w2'' ''/hello'') (initial demoStore))) = []"
proof -
  have a: "readInvokeParams (invokeRequest ''w2'' ''/hello'') = (Some ''w2'', Some ''/hello'')"
    by (simp add: readInvokeParams_def invokeRequest_def searchParamsGet_def)
  have b: "isReady (store (initial demoStore)) ''w2'' = Inr False"
    by (simp add: initial_def demoStore_def)
  from not_ready_never_publishes [OF a b, of demoRuntime "''r1''"]
  show ?thesis by (simp add: initial_def)
qed

subsection \<open>Publish failure\<close>

text \<open>
  C3. When \<^verbatim>\<open>handleInvoke\<close> has registered an entry under a fresh request id and the
  publish throws, the \<^verbatim>\<open>catch\<close> block deletes the entry, so that the table is what it
  was before the call, clears the entry's timer, settles nothing, and answers 502, which is
  not the 504 of a timeout.
\<close>

theorem publish_failure_removes_entry:
  assumes "handleInvoke rt uuid req s = (Inr (AwaitingPublish requestId p), s1)"
    and "pending s uuid = None"
  shows "\<exists>e. pending s1 requestId = Some e \<and> timers s1 (timer e) \<noteq> None
           \<and> fst (handleInvoke_publishFailed rt requestId s1)
               = json rt (errorObject ''Failed to publish to PubSub'') 502
           \<and> status (fst (handleInvoke_publishFailed rt requestId s1)) = 502
           \<and> status (handleInvoke_settled rt (Rejected err)) = 504
           \<and> status (fst (handleInvoke_publishFailed rt requestId s1))
               \<noteq> status (handleInvoke_settled rt (Rejected err))
           \<and> pending (snd (handleInvoke_publishFailed rt requestId s1)) = pending s
           \<and> timers (snd (handleInvoke_publishFailed rt requestId s1)) (timer e) = None
           \<and> settled (snd (handleInvoke_publishFailed rt requestId s1)) = settled s"
  using assms
  by (auto simp: handleInvoke_def handleInvoke_publishFailed_def handleInvoke_settled_def
        awaitResponse_def setTimeoutDelay_def publish_def clearTimeout_def json_def Let_def
        split: prod.splits option.splits sum.splits if_splits)

theorem publish_failure_removes_entry_witness:
  "status (fst (handleInvoke_publishFailed demoRuntime ''r1'' registered)) = 502
   \<and> pending (snd (handleInvoke_publishFailed demoRuntime ''r1'' registered)) = Map.empty
   \<and> timers (snd (handleInvoke_publishFailed demoRuntime ''r1'' registered)) 0 = None
   \<and> settled (snd (handleInvoke_publishFailed demoRuntime ''r1'' registered)) = []"
proof -
  have fresh: "pending (initial demoStore) ''r1'' = None"
    by (simp add: initial_def)
  from publish_failure_removes_entry [OF handleInvoke_registered fresh, of "JsError ''Error'' ''Gateway Timeout''"]
  obtain e where e: "pending registered ''r1'' = Some e"
    and st: "status (fst (handleInvoke_publishFailed demoRuntime ''r1'' registered)) = 502"
    and p: "pending (snd (handleInvoke_publishFailed demoRuntime ''r1'' registered))
              = pending (initial demoStore)"
    and t: "timers (snd (handleInvoke_publishFailed demoRuntime ''r1'' registered)) (timer e) = None"
    and l: "settled (snd (handleInvoke_publishFailed demoRuntime ''r1'' registered))
              = settled (initial demoStore)"
    by blast
  from e have "timer e = 0" by (auto simp: registered_fields)
  with st p t l show ?thesis by (simp add: initial_def)
qed

subsection \<open>Events of the transport\<close>

text \<open>
  C4. Whatever the request (its headers, its body, a body that does not parse, an unknown
  event type or hub) and whatever happens inside (no entry, a store that throws),
  \<^verbatim>\<open>handleEvents\<close> answers with status 200 and no body.
\<close>

theorem events_always_acknowledged:
  "fst (handleEvents rt cfg req s) = acknowledgement
   \<and> status (fst (handleEvents rt cfg req s)) = 200
   \<and> responseBody (fst (handleEvents rt cfg req s)) = None"
  by (simp add: handleEvents_def acknowledgement_def Let_def)

text \<open>
  C5. A response event whose correlation id has no entry in the pending table leaves the
  whole gateway unchanged (the table, the timers, the settlements, the store) and is
  acknowledged.
\<close>

theorem unknown_correlation_is_dropped:
  assumes "responseEvent rt cfg req data requestId"
    and "pending s requestId = None"
  shows "handleEvents rt cfg req s = (acknowledgement, s)"
  using assms by (simp add: handleEvents_def handleEvents_response_def responseEvent_def Let_def)

theorem unknown_correlation_is_dropped_witness:
  "handleEvents demoRuntime demoConfig
     (eventRequest ''/api/hubs/response-i1/users/w1'' ''{type:response,requestId:r1,status:201,body:ok}'')
     (initial demoStore)
   = (acknowledgement, initial demoStore)"
proof -
  have none: "pending (initial demoStore) ''r1'' = None"
    by (simp add: initial_def)
  from unknown_correlation_is_dropped [OF responseEvent_ok none]
  show ?thesis .
qed

text \<open>
  C10. A response event that matches an entry and whose status is missing or not a number
  resolves the entry's promise with status 200, and with the body \<^verbatim>\<open>null\<close> when the
  body is absent; the entry is deleted and its timer cleared.
\<close>

theorem missing_status_resolves_200:
  assumes "responseEvent rt cfg req data requestId"
    and "pending s requestId = Some e"
    and "asNumber (getProp data ''status'') = None"
  shows "settled (snd (handleEvents rt cfg req s))
           = settled s @ [(promise e, Resolved 200 (case getProp data ''body'' of None \<Rightarrow> JNull | Some b \<Rightarrow> b))]
         \<and> pending (snd (handleEvents rt cfg req s)) requestId = None
         \<and> timers (snd (handleEvents rt cfg req s)) (timer e) = None
         \<and> fst (handleEvents rt cfg req s) = acknowledgement"
  using assms
  by (auto simp: handleEvents_def handleEvents_response_def responseEvent_def Let_def clearTimeout_def
        split: option.splits)

theorem missing_status_resolves_200_witness:
  "settled (snd (handleEvents demoRuntime demoConfig
      (eventRequest ''/api/hubs/response-i1/users/w1'' ''{type:response,requestId:r1,status:late}'')
      registered)) = [(0, Resolved 200 JNull)]
   \<and> pending (snd (handleEvents demoRuntime demoConfig
      (eventRequest ''/api/hubs/response-i1/users/w1'' ''{type:response,requestId:r1,status:late}'')
      registered)) ''r1'' = None"
proof -
  have entry: "pending registered ''r1'' = Some \<lparr> promise = 0, timer = 0 \<rparr>"
    by (simp add: registered_fields)
  have nan: "asNumber (getProp (JObject [(''type'', JString ''response''), (''requestId'', JString ''r1''),
               (''status'', JString ''late'')]) ''status'') = None"
    by simp
  from missing_status_resolves_200 [OF responseEvent_late entry nan]
  show ?thesis by (simp add: registered_fields)
qed

subsection \<open>Access issuer\<close>

text \<open>
  C7. \<^verbatim>\<open>handleAuth\<close> checks in this order. When an API key is configured and the
  \<^verbatim>\<open>x-api-key\<close> header is not that key, the answer is 401. When the key check passes,
  an identity is supplied, the allow-list is not empty and the identity is not in it, the
  answer is 403. When the allow-list is empty, \<^verbatim>\<open>isClientAllowed\<close> holds of every
  identity and the answer is never 403.
\<close>

theorem auth_checks:
  "(AUTH_TOKEN cfg \<noteq> [] \<and> orEmpty (headersGet req ''x-api-key'') \<noteq> AUTH_TOKEN cfg
      \<longrightarrow> status (handleAuth rt cfg mint req) = 401)
   \<and> (verifyApiKey cfg req \<and> readClientId rt req \<noteq> [] \<and> ALLOWED_CLIENT_IDS cfg \<noteq> []
        \<and> readClientId rt req \<notin> set (ALLOWED_CLIENT_IDS cfg)
      \<longrightarrow> status (handleAuth rt cfg mint req) = 403)
   \<and> (ALLOWED_CLIENT_IDS cfg = []
      \<longrightarrow> (\<forall>clientId. isClientAllowed cfg clientId) \<and> status (handleAuth rt cfg mint req) \<noteq> 403)"
  by (auto simp: handleAuth_def verifyApiKey_def isClientAllowed_def json_def Let_def
           split: sum.splits option.splits)

theorem auth_checks_witness:
  "status (handleAuth demoRuntime demoConfig (\<lambda>u. Inr (Some ''wss://x'')) (authRequest ''guess'' ''{clientId:w2}'')) = 401
   \<and> status (handleAuth demoRuntime demoConfig (\<lambda>u. Inr (Some ''wss://x'')) (authRequest ''secret'' ''{clientId:w2}'')) = 403
   \<and> isClientAllowed (loadConfig [] ''i1'') ''w2''"
proof -
  let ?mint = "\<lambda>u::string. (Inr (Some ''wss://x'') :: JsError + string option)"
  have a: "AUTH_TOKEN demoConfig \<noteq> []
      \<and> orEmpty (headersGet (authRequest ''guess'' ''{clientId:w2}'') ''x-api-key'') \<noteq> AUTH_TOKEN demoConfig"
    by (simp add: demoConfig_simps authRequest_def headersGet_def)
  have b: "verifyApiKey demoConfig (authRequest ''secret'' ''{clientId:w2}'')
      \<and> readClientId demoRuntime (authRequest ''secret'' ''{clientId:w2}'') \<noteq> []
      \<and> ALLOWED_CLIENT_IDS demoConfig \<noteq> []
      \<and> readClientId demoRuntime (authRequest ''secret'' ''{clientId:w2}'') \<notin> set (ALLOWED_CLIENT_IDS demoConfig)"
    by (simp add: demoConfig_simps authRequest_def headersGet_def verifyApiKey_def readClientId_def
          demoRuntime_def demoTable_def)
  have c: "ALLOWED_CLIENT_IDS (loadConfig [] ''i1'') = []"
    by (simp add: loadConfig_def trim_def)
  from auth_checks [of demoConfig "authRequest ''guess'' ''{clientId:w2}''" demoRuntime ?mint] a
  have 1: "status (handleAuth demoRuntime demoConfig ?mint (authRequest ''guess'' ''{clientId:w2}'')) = 401"
    by blast
  from auth_checks [of demoConfig "authRequest ''secret'' ''{clientId:w2}''" demoRuntime ?mint] b
  have 2: "status (handleAuth demoRuntime demoConfig ?mint (authRequest ''secret'' ''{clientId:w2}'')) = 403"
    by blast
  from auth_checks [of "loadConfig [] ''i1''" "authRequest ''secret'' ''{clientId:w2}''" demoRuntime ?mint] c
  have 3: "isClientAllowed (loadConfig [] ''i1'') ''w2''"
    by blast
  from 1 2 3 show ?thesis by blast
qed

subsection \<open>Remote forwarder\<close>

text \<open>
  C6. For every message frame that carries a request envelope (an object of type
  \<^verbatim>\<open>request\<close> whose request id, method and path are strings), \<^verbatim>\<open>onMessage\<close>
  sends exactly one frame, which carries the response envelope \<^verbatim>\<open>forwardToLocal\<close>
  returns, with the request id of the request; when the local call throws, that envelope
  has the status 500 and the body \<^verbatim>\<open>{ error: message }\<close>.
\<close>

theorem forwarder_replies_once:
  assumes "JSON_parse rt raw = Some msg"
    and "getProp msg ''type'' = Some (JString ''message'')"
    and "messagePayload rt msg = Some payload"
    and "isObject payload"
    and "getProp payload ''type'' = Some (JString ''request'')"
    and "getProp payload ''requestId'' = Some (JString requestId)"
    and "getProp payload ''method'' = Some (JString method)"
    and "getProp payload ''path'' = Some (JString path)"
  shows "\<exists>response.
           forwardToLocal rt url fetch payload = Inr response
           \<and> onMessage rt url fetch raw ws = ws @ [JSON_stringify rt (outbound response)]
           \<and> getProp response ''type'' = Some (JString ''response'')
           \<and> getProp response ''requestId'' = Some (JString requestId)
           \<and> (\<forall>err. fetch (localCall rt (joinUrl url path)
                            (toUpperCase (if method = [] then ''GET'' else method)) path payload) = Inl err
                  \<longrightarrow> response = responseEnvelope (Some (JString requestId)) 500
                                   (errorObject (errorText err))
                      \<and> getProp response ''status'' = Some (JNumber 500)
                      \<and> getProp response ''body'' = Some (JObject [(''error'', JString (errorText err))]))"
proof -
  have m: "forwardMethod payload = Inr (toUpperCase (if method = [] then ''GET'' else method))"
    using assms(7) by (simp add: forwardMethod_def)
  have "\<exists>response. forwardToLocal rt url fetch payload = Inr response"
    using assms(8) m
    by (simp add: forwardToLocal_def Let_def split: sum.splits)
  then obtain response where r: "forwardToLocal rt url fetch payload = Inr response" ..
  have sent: "onMessage rt url fetch raw ws = ws @ [JSON_stringify rt (outbound response)]"
    using assms(1-5) r by (simp add: onMessage_def)
  have shape: "getProp response ''type'' = Some (JString ''response'')
               \<and> getProp response ''requestId'' = Some (JString requestId)"
    using r assms(6,8) m
    by (auto simp: forwardToLocal_def Let_def responseEnvelope_def split: sum.splits)
  have failed: "\<forall>err. fetch (localCall rt (joinUrl url path)
                            (toUpperCase (if method = [] then ''GET'' else method)) path payload) = Inl err
                  \<longrightarrow> response = responseEnvelope (Some (JString requestId)) 500
                                   (errorObject (errorText err))
                      \<and> getProp response ''status'' = Some (JNumber 500)
                      \<and> getProp response ''body'' = Some (JObject [(''error'', JString (errorText err))])"
    using r assms(6,8) m
    by (auto simp: forwardToLocal_def Let_def responseEnvelope_def errorObject_def split: sum.splits)
  from r sent shape failed show ?thesis by blast
qed

theorem forwarder_replies_once_witness:
  "forwardToLocal demoRuntime ''http://localhost:3000'' demoFetchDown (requestMessage ''r1'' ''POST'' ''/hello'' JNull)
     = Inr (responseEnvelope (Some (JString ''r1'')) 500 (errorObject ''fetch failed''))
   \<and> onMessage demoRuntime ''http://localhost:3000'' demoFetchDown
       ''{type:message,dataType:json,data:{type:request,requestId:r1,method:POST,path:/hello,body:null}}'' []
     = [JSON_stringify demoRuntime (outbound (responseEnvelope (Some (JString ''r1'')) 500 (errorObject ''fetch failed'')))]"
proof -
  let ?msg = "JObject [(''type'', JString ''message''), (''dataType'', JString ''json''),
                  (''data'', requestMessage ''r1'' ''POST'' ''/hello'' JNull)]"
  let ?p = "requestMessage ''r1'' ''POST'' ''/hello'' JNull"
  have 2: "getProp ?msg ''type'' = Some (JString ''message'')" by simp
  have 3: "messagePayload demoRuntime ?msg = Some ?p"
    by (simp add: messagePayload_def requestMessage_def)
  have 4: "isObject ?p" by (simp add: requestMessage_def)
  have 5: "getProp ?p ''type'' = Some (JString ''request'')" by (simp add: requestMessage_def)
  have 6: "getProp ?p ''requestId'' = Some (JString ''r1'')" by (simp add: requestMessage_def)
  have 7: "getProp ?p ''method'' = Some (JString ''POST'')" by (simp add: requestMessage_def)
  have 8: "getProp ?p ''path'' = Some (JString ''/hello'')" by (simp add: requestMessage_def)
  from forwarder_replies_once [OF demo_frame 2 3 4 5 6 7 8, of "''http://localhost:3000''" demoFetchDown "[]"]
  show ?thesis by (auto simp: demoFetchDown_def)
qed

subsection \<open>Envelope codec\<close>



subsection \<open>The timeout of an entry\<close>




end
